theory Spec2Isabelle
  imports Complex_Main
begin

section \<open>The model builder of the notebook\<close>

text \<open>
  The notebook \<^verbatim>\<open>notebooks/estimating_your_training_utilization.ipynb\<close> defines one
  function, \<^verbatim>\<open>create_model\<close>:
  \<^verbatim>\<open>
  def create_model(n_layers, n_nodes):
      model = Sequential()
      model.add(Flatten(input_shape=(28, 28)))
      for _ in range(n_layers):
          model.add(Dense(n_nodes, activation='relu'))
      model.add(Dense(10, activation='softmax'))
      model.compile(loss='sparse_categorical_crossentropy', optimizer='adam', metrics=['acc'])
      return model
  \<close>
  Keras is not part of the repository. A layer is data here: the constructor and the
  arguments that made it. The \<^verbatim>\<open>Dense\<close> constructor checks its unit count and raises
  for a count it does not accept (\<^verbatim>\<open>ValueError\<close> for a negative count in every version;
  versions differ on 0 and on counts too large to build). What the call raises for a
  unit count, if anything, is the parameter \<open>raises\<close> of the model: \<open>raises units = None\<close>
  when the count is accepted. Python integers are \<open>int\<close>; an exception is a value of
  type \<open>'x\<close>, and the function returns it as \<open>Inl\<close>.
\<close>

datatype activation = relu | softmax

datatype layer =
  Flatten "int \<times> int"
  | Dense int activation

record compile_args =
  loss :: string
  optimizer :: string
  metrics :: "string list"

record model =
  layers :: "layer list"
  compiled :: "compile_args option"

definition Sequential :: model where
  "Sequential = \<lparr>layers = [], compiled = None\<rparr>"

definition add :: "layer \<Rightarrow> model \<Rightarrow> model" where
  "add l m = m\<lparr>layers := layers m @ [l]\<rparr>"

definition compile :: "string \<Rightarrow> string \<Rightarrow> string list \<Rightarrow> model \<Rightarrow> model" where
  "compile l opt ms m = m\<lparr>compiled := Some \<lparr>loss = l, optimizer = opt, metrics = ms\<rparr>\<rparr>"

text \<open>The call \<^verbatim>\<open>Dense(units, activation=act)\<close>: it raises, or it returns the layer.\<close>

definition Dense_init :: "(int \<Rightarrow> 'x option) \<Rightarrow> int \<Rightarrow> activation \<Rightarrow> 'x + layer" where
  "Dense_init raises units act =
     (case raises units of
        Some e \<Rightarrow> Inl e
      | None \<Rightarrow> Inr (Dense units act))"

text \<open>
  \<^verbatim>\<open>range(n)\<close> of an integer \<open>n\<close> holds \<open>n\<close> items when \<open>n\<close> is positive and none
  otherwise; the loop body does not use the loop variable, so the loop is a recursion on
  the number of rounds left, started at \<open>nat n_layers\<close>. A round whose \<^verbatim>\<open>Dense\<close> call
  raises ends the loop and the function with that exception.
\<close>

primrec hidden_loop :: "(int \<Rightarrow> 'x option) \<Rightarrow> nat \<Rightarrow> int \<Rightarrow> model \<Rightarrow> 'x + model" where
  "hidden_loop raises 0 n_nodes m = Inr m"
| "hidden_loop raises (Suc k) n_nodes m =
     (case Dense_init raises n_nodes relu of
        Inl e \<Rightarrow> Inl e
      | Inr l \<Rightarrow> hidden_loop raises k n_nodes (add l m))"

definition create_model :: "(int \<Rightarrow> 'x option) \<Rightarrow> int \<Rightarrow> int \<Rightarrow> 'x + model" where
  "create_model raises n_layers n_nodes =
     (let model = Sequential;
          model = add (Flatten (28, 28)) model
      in case hidden_loop raises (nat n_layers) n_nodes model of
           Inl e \<Rightarrow> Inl e
         | Inr model \<Rightarrow>
             (case Dense_init raises 10 softmax of
                Inl e \<Rightarrow> Inl e
              | Inr l \<Rightarrow>
                  Inr (compile ''sparse_categorical_crossentropy'' ''adam'' [''acc'']
                         (add l model))))"

text \<open>A library that rejects a negative unit count, as every Keras version does.\<close>

definition negative_units :: "int \<Rightarrow> string option" where
  "negative_units units = (if units < 0 then Some ''ValueError'' else None)"

section \<open>The measurement cycle of the notebook\<close>

text \<open>
  Each of the three training cells brackets the training run by utilization queries:
  \<^verbatim>\<open>
  set_interval = psutil.cpu_percent(interval=None)
  model.fit(x_train, y_train, epochs=2, verbose=1)
  print(psutil.cpu_percent(interval=None, percpu=True), psutil.cpu_percent(interval=None))
  \<close>
  The first line is the start of a measurement window (\<open>begin_window\<close>), the last line
  takes the sample (\<open>sample\<close>), the three lines together are one measurement cycle
  (\<open>run_with_measurement\<close>). The notebook defines no sampler class, no window state
  and no error type of its own.

  The host (the operating system's counters together with the state the \<^verbatim>\<open>psutil\<close>
  module keeps) is a state of type \<open>'h\<close>, passed explicitly. The two forms of the
  library call that the notebook uses are the two fields of \<open>psutil_api\<close>; each either
  raises (an exception of type \<open>'x\<close>, \<open>Inl\<close>) or answers and leaves a new host state.
  Python floats are idealised as \<open>real\<close>.
\<close>

record ('h, 'x) psutil_api =
  cpu_percent :: "'h \<Rightarrow> 'x + real \<times> 'h"
  cpu_percent_percpu :: "'h \<Rightarrow> 'x + real list \<times> 'h"

record UtilizationSample =
  per_resource_percentages :: "real list"
  aggregate_percentage :: real

text \<open>
  \<^verbatim>\<open>set_interval = psutil.cpu_percent(interval=None)\<close>: the system-wide query; its value
  is bound to \<^verbatim>\<open>set_interval\<close> and never read.
\<close>

definition begin_window :: "('h, 'x) psutil_api \<Rightarrow> 'h \<Rightarrow> 'x + real \<times> 'h" where
  "begin_window P h = cpu_percent P h"

text \<open>
  The arguments of \<^verbatim>\<open>print\<close>, evaluated from left to right: the per-CPU query, then
  the system-wide query. The pair printed is the sample.
\<close>

definition sample :: "('h, 'x) psutil_api \<Rightarrow> 'h \<Rightarrow> 'x + UtilizationSample \<times> 'h" where
  "sample P h =
     (case cpu_percent_percpu P h of
        Inl e \<Rightarrow> Inl e
      | Inr (per, h1) \<Rightarrow>
          (case cpu_percent P h1 of
             Inl e \<Rightarrow> Inl e
           | Inr (agg, h2) \<Rightarrow>
               Inr (\<lparr>per_resource_percentages = per, aggregate_percentage = agg\<rparr>, h2)))"

text \<open>
  One cell. The work (\<^verbatim>\<open>model.fit(...)\<close>) runs on the host, changes it, and returns
  a value or raises; the cell keeps no name for the value it returns. No statement of
  the cell is inside a \<^verbatim>\<open>try\<close>, so the first exception ends the cell.
\<close>

definition run_with_measurement ::
    "('h, 'x) psutil_api \<Rightarrow> ('h \<Rightarrow> 'x + 'v \<times> 'h) \<Rightarrow> 'h \<Rightarrow> 'x + UtilizationSample \<times> 'h" where
  "run_with_measurement P work h =
     (case begin_window P h of
        Inl e \<Rightarrow> Inl e
      | Inr (set_interval, h1) \<Rightarrow>
          (case work h1 of
             Inl e \<Rightarrow> Inl e
           | Inr (v, h2) \<Rightarrow> sample P h2))"

text \<open>
  A sequence of sampler operations, run in order on one host; it stops at the first
  exception and otherwise returns the samples taken, in order.
\<close>

datatype operation = Begin_window | Sample

fun run_ops ::
    "('h, 'x) psutil_api \<Rightarrow> operation list \<Rightarrow> 'h \<Rightarrow> 'x + UtilizationSample list \<times> 'h" where
  "run_ops P [] h = Inr ([], h)"
| "run_ops P (Begin_window # ops) h =
     (case begin_window P h of
        Inl e \<Rightarrow> Inl e
      | Inr (r, h1) \<Rightarrow> run_ops P ops h1)"
| "run_ops P (Sample # ops) h =
     (case sample P h of
        Inl e \<Rightarrow> Inl e
      | Inr (s, h1) \<Rightarrow>
          (case run_ops P ops h1 of
             Inl e \<Rightarrow> Inl e
           | Inr (ss, h2) \<Rightarrow> Inr (s # ss, h2)))"

text \<open>A host answers when neither query raises, in any state.\<close>

definition answers :: "('h, 'x) psutil_api \<Rightarrow> bool" where
  "answers P \<longleftrightarrow>
     (\<forall>h. \<exists>r h'. cpu_percent P h = Inr (r, h')) \<and>
     (\<forall>h. \<exists>r h'. cpu_percent_percpu P h = Inr (r, h'))"

text \<open>The invariant the specification states for a sample: aggregate = mean, up to 1e-6.\<close>

definition aggregate_is_mean :: "UtilizationSample \<Rightarrow> bool" where
  "aggregate_is_mean s \<longleftrightarrow>
     \<bar>aggregate_percentage s
        - sum_list (per_resource_percentages s) / real (length (per_resource_percentages s))\<bar>
       \<le> 1 / 10 ^ 6"

subsection \<open>The recorded runs\<close>

text \<open>
  The notebook file keeps the output of its last execution. The three training cells
  printed
  \<^verbatim>\<open>
  [76.5, 76.3, 28.7, 22.4, 16.0, 11.8, 7.4, 3.5, 2.2, 1.6] 36.2
  [79.4, 79.3, 38.7, 32.8, 24.0, 17.6, 9.2, 4.5, 2.9, 1.9] 34.1
  [77.0, 76.7, 37.4, 30.2, 21.7, 14.5, 8.2, 3.8, 2.6, 1.8] 29.3
  \<close>
  \<open>answering per agg\<close> is a host that gives these answers: \<open>per\<close> to the per-CPU query
  and \<open>agg\<close> to the system-wide query. \<open>unavailable e\<close> is a host whose queries raise \<open>e\<close>.
\<close>

definition answering :: "real list \<Rightarrow> real \<Rightarrow> (unit, string) psutil_api" where
  "answering per agg =
     \<lparr>cpu_percent = (\<lambda>h. Inr (agg, h)), cpu_percent_percpu = (\<lambda>h. Inr (per, h))\<rparr>"

definition unavailable :: "string \<Rightarrow> (unit, string) psutil_api" where
  "unavailable e = \<lparr>cpu_percent = (\<lambda>h. Inl e), cpu_percent_percpu = (\<lambda>h. Inl e)\<rparr>"

text \<open>A host that answers the system-wide query with \<open>agg\<close> and raises \<open>e\<close> at the per-CPU query.\<close>

definition percpu_unavailable :: "real \<Rightarrow> string \<Rightarrow> (unit, string) psutil_api" where
  "percpu_unavailable agg e =
     \<lparr>cpu_percent = (\<lambda>h. Inr (agg, h)), cpu_percent_percpu = (\<lambda>h. Inl e)\<rparr>"

definition cell5 :: "(unit, string) psutil_api" where
  "cell5 = answering [76.5, 76.3, 28.7, 22.4, 16.0, 11.8, 7.4, 3.5, 2.2, 1.6] 36.2"

definition cell6 :: "(unit, string) psutil_api" where
  "cell6 = answering [79.4, 79.3, 38.7, 32.8, 24.0, 17.6, 9.2, 4.5, 2.9, 1.9] 34.1"

definition cell7 :: "(unit, string) psutil_api" where
  "cell7 = answering [77.0, 76.7, 37.4, 30.2, 21.7, 14.5, 8.2, 3.8, 2.6, 1.8] 29.3"

subsection \<open>The library call\<close>

text \<open>
  Modelled from the spec: \<^verbatim>\<open>psutil.cpu_percent\<close> belongs to a library that is not
  part of the repository. The specification describes it as the host's query and reset
  interface (section 6): a percentage is busy time over elapsed time per resource unit
  since the last reset (section 4.1, glossary), a sample has one value per unit
  (section 3), and an empty interval gives a degenerate value, not an error
  (section 4.1). What the specification leaves open follows the library: a call with
  \<^verbatim>\<open>interval=None\<close> compares the CPU times of now with the ones saved by the previous
  call of the same form (system-wide, or per CPU) or at import, and saves the new ones
  in their place; a counter that went backwards counts as unchanged; an empty
  interval gives 0.0; the result is rounded to one decimal.

  CPU times are a pair of tick counts (busy, idle), one pair per logical CPU; the
  system-wide times are their sums. \<open>per_cpu_times\<close> is what the operating system
  reports now; \<open>last_cpu_times\<close> and \<open>last_per_cpu_times\<close> are the two values the
  module saves.
\<close>

type_synonym cpu_times = "nat \<times> nat"

record host =
  per_cpu_times :: "cpu_times list"
  last_cpu_times :: cpu_times
  last_per_cpu_times :: "cpu_times list"

definition cpu_times :: "host \<Rightarrow> cpu_times" where
  "cpu_times h = (sum_list (map fst (per_cpu_times h)), sum_list (map snd (per_cpu_times h)))"

definition calculate :: "cpu_times \<Rightarrow> cpu_times \<Rightarrow> real" where
  "calculate t1 t2 =
     (let busy_delta = fst t2 - fst t1;
          idle_delta = snd t2 - snd t1;
          all_delta = busy_delta + idle_delta
      in if all_delta = 0 then 0
         else real_of_int (round (real busy_delta / real all_delta * 100 * 10)) / 10)"

definition psutil_cpu_percent :: "host \<Rightarrow> real \<times> host" where
  "psutil_cpu_percent h =
     (let t1 = last_cpu_times h;
          t2 = cpu_times h
      in (calculate t1 t2, h\<lparr>last_cpu_times := t2\<rparr>))"

definition psutil_cpu_percent_percpu :: "host \<Rightarrow> real list \<times> host" where
  "psutil_cpu_percent_percpu h =
     (let tot1 = last_per_cpu_times h;
          tot2 = per_cpu_times h
      in (map (\<lambda>(t1, t2). calculate t1 t2) (zip tot1 tot2), h\<lparr>last_per_cpu_times := tot2\<rparr>))"

definition psutil :: "(host, 'x) psutil_api" where
  "psutil =
     \<lparr>cpu_percent = (\<lambda>h. Inr (psutil_cpu_percent h)),
      cpu_percent_percpu = (\<lambda>h. Inr (psutil_cpu_percent_percpu h))\<rparr>"

text \<open>Importing the module saves the CPU times of that moment, in both forms.\<close>

definition import_psutil :: "cpu_times list \<Rightarrow> host" where
  "import_psutil cpus =
     \<lparr>per_cpu_times = cpus,
      last_cpu_times = (sum_list (map fst cpus), sum_list (map snd cpus)),
      last_per_cpu_times = cpus\<rparr>"

text \<open>Time passes: CPU number \<open>i\<close> gains \<open>f i\<close> ticks (busy, idle).\<close>

definition elapse :: "(nat \<Rightarrow> cpu_times) \<Rightarrow> host \<Rightarrow> host" where
  "elapse f h =
     h\<lparr>per_cpu_times :=
         map (\<lambda>(i, t). (fst t + fst (f i), snd t + snd (f i))) (enumerate 0 (per_cpu_times h))\<rparr>"

text \<open>A further CPU comes online, its times starting at \<open>t\<close>.\<close>

definition cpu_online :: "cpu_times \<Rightarrow> host \<Rightarrow> host" where
  "cpu_online t h = h\<lparr>per_cpu_times := per_cpu_times h @ [t]\<rparr>"

text \<open>
  Two training cells in a row, as cells 5 and 6 of the notebook: a cycle, the
  statements between the two cycles (\<^verbatim>\<open>create_model\<close>, \<^verbatim>\<open>model.summary()\<close>), a second
  cycle. The result is the pair of samples.
\<close>

definition two_cycles ::
    "('h, 'x) psutil_api \<Rightarrow> ('h \<Rightarrow> 'x + 'v \<times> 'h) \<Rightarrow> ('h \<Rightarrow> 'x + 'u \<times> 'h) \<Rightarrow> ('h \<Rightarrow> 'x + 'w \<times> 'h)
      \<Rightarrow> 'h \<Rightarrow> 'x + (UtilizationSample \<times> UtilizationSample) \<times> 'h" where
  "two_cycles P work1 between work2 h =
     (case run_with_measurement P work1 h of
        Inl e \<Rightarrow> Inl e
      | Inr (s1, h1) \<Rightarrow>
          (case between h1 of
             Inl e \<Rightarrow> Inl e
           | Inr (m, h2) \<Rightarrow>
               (case run_with_measurement P work2 h2 of
                  Inl e \<Rightarrow> Inl e
                | Inr (s2, h3) \<Rightarrow> Inr ((s1, s2), h3))))"

section \<open>Properties of the model builder\<close>

lemma layers_add: "layers (add l m) = layers m @ [l]"
  by (simp add: add_def)

lemma compiled_add: "compiled (add l m) = compiled m"
  by (simp add: add_def)

lemma hidden_loop_accepted:
  "raises n_nodes = None \<Longrightarrow>
     hidden_loop raises k n_nodes m =
       Inr (m\<lparr>layers := layers m @ replicate k (Dense n_nodes relu)\<rparr>)"
proof (induction k arbitrary: m)
  case 0
  show ?case by simp
next
  case (Suc k)
  have "hidden_loop raises (Suc k) n_nodes m = hidden_loop raises k n_nodes (add (Dense n_nodes relu) m)"
    using Suc.prems by (simp add: Dense_init_def)
  also have "\<dots> = Inr (m\<lparr>layers := (layers m @ [Dense n_nodes relu]) @ replicate k (Dense n_nodes relu)\<rparr>)"
    by (simp add: Suc.IH [OF Suc.prems] add_def)
  also have "(layers m @ [Dense n_nodes relu]) @ replicate k (Dense n_nodes relu)
      = layers m @ replicate (Suc k) (Dense n_nodes relu)"
    by simp
  finally show ?case .
qed

lemma hidden_loop_rejected:
  "raises n_nodes = Some e \<Longrightarrow> hidden_loop raises (Suc k) n_nodes m = Inl e"
  by (simp add: Dense_init_def)

lemma create_model_no_hidden:
  "raises 10 = None \<Longrightarrow> n_layers \<le> 0 \<Longrightarrow>
     create_model raises n_layers n_nodes =
       Inr \<lparr>layers = [Flatten (28, 28), Dense 10 softmax],
            compiled = Some \<lparr>loss = ''sparse_categorical_crossentropy'', optimizer = ''adam'',
                             metrics = [''acc'']\<rparr>\<rparr>"
  by (simp add: create_model_def Dense_init_def compile_def add_def Sequential_def)

lemma create_model_accepted:
  "raises 10 = None \<Longrightarrow> raises n_nodes = None \<Longrightarrow>
     create_model raises n_layers n_nodes =
       Inr \<lparr>layers = Flatten (28, 28) # replicate (nat n_layers) (Dense n_nodes relu)
                       @ [Dense 10 softmax],
            compiled = Some \<lparr>loss = ''sparse_categorical_crossentropy'', optimizer = ''adam'',
                             metrics = [''acc'']\<rparr>\<rparr>"
  by (simp add: create_model_def hidden_loop_accepted Dense_init_def compile_def add_def
      Sequential_def)

lemma create_model_rejected:
  "0 < n_layers \<Longrightarrow> raises n_nodes = Some e \<Longrightarrow> create_model raises n_layers n_nodes = Inl e"
proof -
  assume pos: "0 < n_layers" and r: "raises n_nodes = Some e"
  from pos obtain k where k: "nat n_layers = Suc k"
    by (cases "nat n_layers") auto
  show ?thesis
    using r by (simp add: create_model_def k Dense_init_def)
qed

text \<open>
  Counterexample to C10 as stated: one hidden layer of -5 nodes. The \<^verbatim>\<open>Dense\<close> call of
  the first round of the loop raises, and \<open>create_model\<close> returns no model.
\<close>

theorem create_model_negative_nodes:
  "create_model negative_units 1 (- 5) = Inl ''ValueError''"
  by (simp add: create_model_def Dense_init_def negative_units_def)

text \<open>
  C10, amended. When the \<^verbatim>\<open>Dense\<close> constructor accepts 10 units, and accepts \<open>n_nodes\<close>
  units or is never called with them (\<open>n_layers\<close> is 0 or less), then
  \<open>create_model n_layers n_nodes\<close> returns a compiled model (loss sparse categorical
  crossentropy, optimizer adam, metric acc) whose layers are exactly: one Flatten layer
  over a 28 by 28 input, then \<open>n_layers\<close> Dense layers of \<open>n_nodes\<close> units with relu
  activation, then one Dense layer of 10 units with softmax activation; for
  \<open>n_layers = 0\<close> the model has no hidden layer. When \<open>n_layers\<close> is 1 or more and the
  constructor raises for \<open>n_nodes\<close> units, \<open>create_model\<close> raises that exception.
\<close>

theorem create_model_layers:
  "(raises 10 = None \<and> (n_layers \<le> 0 \<or> raises n_nodes = None) \<longrightarrow>
      create_model raises n_layers n_nodes =
        Inr \<lparr>layers = Flatten (28, 28) # replicate (nat n_layers) (Dense n_nodes relu)
                        @ [Dense 10 softmax],
             compiled = Some \<lparr>loss = ''sparse_categorical_crossentropy'', optimizer = ''adam'',
                              metrics = [''acc'']\<rparr>\<rparr>)
   \<and> (raises 10 = None \<longrightarrow>
      create_model raises 0 n_nodes =
        Inr \<lparr>layers = [Flatten (28, 28), Dense 10 softmax],
             compiled = Some \<lparr>loss = ''sparse_categorical_crossentropy'', optimizer = ''adam'',
                              metrics = [''acc'']\<rparr>\<rparr>)
   \<and> (0 < n_layers \<and> raises n_nodes = Some e \<longrightarrow>
      create_model raises n_layers n_nodes = Inl e)"
proof (intro conjI impI)
  assume a: "raises 10 = None \<and> (n_layers \<le> 0 \<or> raises n_nodes = None)"
  show "create_model raises n_layers n_nodes =
        Inr \<lparr>layers = Flatten (28, 28) # replicate (nat n_layers) (Dense n_nodes relu)
                        @ [Dense 10 softmax],
             compiled = Some \<lparr>loss = ''sparse_categorical_crossentropy'', optimizer = ''adam'',
                              metrics = [''acc'']\<rparr>\<rparr>"
  proof (cases "n_layers \<le> 0")
    case True
    then show ?thesis using a by (simp add: create_model_no_hidden)
  next
    case False
    then have "raises n_nodes = None" using a by simp
    then show ?thesis using a by (simp add: create_model_accepted)
  qed
next
  assume "raises 10 = None"
  then show "create_model raises 0 n_nodes =
        Inr \<lparr>layers = [Flatten (28, 28), Dense 10 softmax],
             compiled = Some \<lparr>loss = ''sparse_categorical_crossentropy'', optimizer = ''adam'',
                              metrics = [''acc'']\<rparr>\<rparr>"
    by (simp add: create_model_no_hidden)
next
  assume "0 < n_layers \<and> raises n_nodes = Some e"
  then show "create_model raises n_layers n_nodes = Inl e"
    by (simp add: create_model_rejected)
qed

theorem create_model_layers_witness:
  "negative_units 10 = None \<and> negative_units 1024 = None
   \<and> create_model negative_units 2 1024 =
       Inr \<lparr>layers = [Flatten (28, 28), Dense 1024 relu, Dense 1024 relu, Dense 10 softmax],
            compiled = Some \<lparr>loss = ''sparse_categorical_crossentropy'', optimizer = ''adam'',
                             metrics = [''acc'']\<rparr>\<rparr>
   \<and> create_model negative_units 0 (- 1) =
       Inr \<lparr>layers = [Flatten (28, 28), Dense 10 softmax],
            compiled = Some \<lparr>loss = ''sparse_categorical_crossentropy'', optimizer = ''adam'',
                             metrics = [''acc'']\<rparr>\<rparr>
   \<and> negative_units (- 1) = Some ''ValueError''
   \<and> create_model negative_units 3 (- 1) = Inl ''ValueError''"
proof -
  have r2: "replicate 2 (Dense 1024 relu) = [Dense 1024 relu, Dense 1024 relu]"
    by (simp add: numeral_2_eq_2)
  show ?thesis
    using create_model_layers [of negative_units 2 1024 "''ValueError''"]
      create_model_layers [of negative_units 3 "- 1" "''ValueError''"]
    by (simp add: negative_units_def r2)
qed

section \<open>Properties of the measurement cycle\<close>

subsection \<open>What a sample is\<close>

text \<open>
  Counterexample to C1 as stated: the sample that cell 5 printed. The mean of its ten
  per-CPU values is 24.64, its aggregate is 36.2.
\<close>

theorem sample_cell5_not_mean:
  "sample cell5 () =
     Inr (\<lparr>per_resource_percentages = [76.5, 76.3, 28.7, 22.4, 16.0, 11.8, 7.4, 3.5, 2.2, 1.6],
           aggregate_percentage = 36.2\<rparr>, ())
   \<and> \<not> aggregate_is_mean
        \<lparr>per_resource_percentages = [76.5, 76.3, 28.7, 22.4, 16.0, 11.8, 7.4, 3.5, 2.2, 1.6],
         aggregate_percentage = 36.2\<rparr>"
  by (simp add: sample_def cell5_def answering_def aggregate_is_mean_def)

text \<open>
  C1, amended. The sample call returns a sample \<open>s\<close> exactly when the per-CPU query
  answers and the system-wide query, made right after it, answers too; the per-unit
  values of \<open>s\<close> are the first answer and its aggregate is the second answer. The
  aggregate is not computed from the per-unit values.
\<close>

theorem sample_is_two_queries:
  "sample P h = Inr (s, h2) \<longleftrightarrow>
     (\<exists>h1. cpu_percent_percpu P h = Inr (per_resource_percentages s, h1)
         \<and> cpu_percent P h1 = Inr (aggregate_percentage s, h2))"
  by (auto simp: sample_def split: sum.splits prod.splits)

subsection \<open>No window state\<close>

text \<open>
  Counterexample to C2 as stated: a sample taken with no \<open>begin_window\<close> before it
  returns a sample.
\<close>

theorem sample_alone_returns:
  "run_ops cell6 [Sample] () =
     Inr ([\<lparr>per_resource_percentages = [79.4, 79.3, 38.7, 32.8, 24.0, 17.6, 9.2, 4.5, 2.9, 1.9],
            aggregate_percentage = 34.1\<rparr>], ())"
  by (simp add: sample_def cell6_def answering_def)

text \<open>
  C2, amended. Whether or not a window was begun, the sample call raises only what one
  of its two host queries raises, unchanged, and it returns a sample whenever both
  queries answer.
\<close>

theorem sample_raises_only_host_errors:
  "(sample P h = Inl e \<longleftrightarrow>
      (cpu_percent_percpu P h = Inl e
       \<or> (\<exists>per h1. cpu_percent_percpu P h = Inr (per, h1) \<and> cpu_percent P h1 = Inl e)))
   \<and> ((\<exists>s h2. sample P h = Inr (s, h2)) \<longleftrightarrow>
      (\<exists>per h1 agg h2. cpu_percent_percpu P h = Inr (per, h1) \<and> cpu_percent P h1 = Inr (agg, h2)))"
  by (auto simp: sample_def split: sum.splits prod.splits)

text \<open>
  Counterexample to C8 as stated: after one \<open>begin_window\<close>, a second sample in a row
  returns a sample as the first one does.
\<close>

theorem second_sample_returns:
  "run_ops cell5 [Begin_window, Sample, Sample] () =
     Inr ([\<lparr>per_resource_percentages = [76.5, 76.3, 28.7, 22.4, 16.0, 11.8, 7.4, 3.5, 2.2, 1.6],
            aggregate_percentage = 36.2\<rparr>,
           \<lparr>per_resource_percentages = [76.5, 76.3, 28.7, 22.4, 16.0, 11.8, 7.4, 3.5, 2.2, 1.6],
            aggregate_percentage = 36.2\<rparr>], ())"
  by (simp add: begin_window_def sample_def cell5_def answering_def)

lemma answers_begin_window: "answers P \<Longrightarrow> \<exists>r h'. begin_window P h = Inr (r, h')"
  by (simp add: answers_def begin_window_def)

lemma answers_sample: "answers P \<Longrightarrow> \<exists>s h'. sample P h = Inr (s, h')"
proof -
  assume a: "answers P"
  then obtain per h1 where p: "cpu_percent_percpu P h = Inr (per, h1)"
    unfolding answers_def by blast
  from a obtain agg h2 where q: "cpu_percent P h1 = Inr (agg, h2)"
    unfolding answers_def by blast
  show ?thesis by (simp add: sample_def p q)
qed

lemma answers_answering: "answers (answering per agg)"
  by (simp add: answers_def answering_def)

text \<open>
  C8, amended. The sampler keeps no Idle or WindowOpen state: on a host that answers,
  every sequence of \<open>begin_window\<close> and \<open>sample\<close> operations, in any order, runs to its
  end and returns one sample for each \<open>sample\<close> operation. Pairing a sample with a
  \<open>begin_window\<close> is left to the caller.
\<close>

theorem run_ops_any_order:
  "answers P \<Longrightarrow>
     \<exists>ss h'. run_ops P ops h = Inr (ss, h') \<and> length ss = count_list ops Sample"
proof (induction ops arbitrary: h)
  case Nil
  show ?case by simp
next
  case (Cons x ops)
  show ?case
  proof (cases x)
    case Begin_window
    obtain r h1 where b: "begin_window P h = Inr (r, h1)"
      using answers_begin_window [OF Cons.prems] by blast
    obtain ss h' where "run_ops P ops h1 = Inr (ss, h')" "length ss = count_list ops Sample"
      using Cons.IH [OF Cons.prems] by blast
    then show ?thesis by (simp add: Begin_window b)
  next
    case Sample
    obtain s h1 where b: "sample P h = Inr (s, h1)"
      using answers_sample [OF Cons.prems] by blast
    obtain ss h' where "run_ops P ops h1 = Inr (ss, h')" "length ss = count_list ops Sample"
      using Cons.IH [OF Cons.prems] by blast
    then show ?thesis by (simp add: Sample b)
  qed
qed

theorem run_ops_any_order_witness:
  "answers cell6
   \<and> (\<exists>ss h'. run_ops cell6 [Sample, Begin_window, Sample] () = Inr (ss, h') \<and> length ss = 2)"
proof -
  have a: "answers cell6" by (simp add: cell6_def answers_answering)
  have c: "count_list [Sample, Begin_window, Sample] Sample = 2" by simp
  show ?thesis
    using a run_ops_any_order [OF a, of "[Sample, Begin_window, Sample]" "()"]
    unfolding c by blast
qed

subsection \<open>The cycle around the work\<close>

text \<open>
  Counterexample to C4 as stated: two works that return different values give the same
  outcome of the cell, which is the sample alone; and that sample (the one cell 7
  printed) does not have the mean as its aggregate.
\<close>

theorem work_result_not_returned:
  "run_with_measurement cell7 (\<lambda>h. Inr (1::int, h)) () =
     Inr (\<lparr>per_resource_percentages = [77.0, 76.7, 37.4, 30.2, 21.7, 14.5, 8.2, 3.8, 2.6, 1.8],
           aggregate_percentage = 29.3\<rparr>, ())
   \<and> run_with_measurement cell7 (\<lambda>h. Inr (2::int, h)) () =
     Inr (\<lparr>per_resource_percentages = [77.0, 76.7, 37.4, 30.2, 21.7, 14.5, 8.2, 3.8, 2.6, 1.8],
           aggregate_percentage = 29.3\<rparr>, ())
   \<and> \<not> aggregate_is_mean
        \<lparr>per_resource_percentages = [77.0, 76.7, 37.4, 30.2, 21.7, 14.5, 8.2, 3.8, 2.6, 1.8],
         aggregate_percentage = 29.3\<rparr>"
  by (simp add: run_with_measurement_def begin_window_def sample_def cell7_def answering_def
      aggregate_is_mean_def)

text \<open>
  C4, amended. When \<open>begin_window\<close> answers and the work, run once on the host state
  that \<open>begin_window\<close> left, returns a value \<open>v\<close> and leaves the host state \<open>h2\<close>, the
  cycle ends as the sample call on \<open>h2\<close> ends: with that sample, or with what that
  call raises. The value \<open>v\<close> is not part of the outcome.
\<close>

theorem run_with_measurement_steps:
  assumes "begin_window P h0 = Inr (r, h1)" and "work h1 = Inr (v, h2)"
  shows "run_with_measurement P work h0 = sample P h2"
  using assms by (simp add: run_with_measurement_def)

theorem run_with_measurement_steps_witness:
  "begin_window cell7 () = Inr (29.3, ())
   \<and> run_with_measurement cell7 (\<lambda>h. Inr (1::int, h)) () = sample cell7 ()"
proof -
  have b: "begin_window cell7 () = Inr (29.3, ())"
    by (simp add: begin_window_def cell7_def answering_def)
  show ?thesis
    using b run_with_measurement_steps [of cell7 "()" "29.3" "()" "\<lambda>h. Inr (1::int, h)" 1 "()"]
    by simp
qed

text \<open>
  Counterexample to C5 as stated: a host whose query raises ends the cycle with that
  very exception, and so does a work that raises the same exception on a host that
  answers; nothing marks the first outcome as a measurement error.
\<close>

theorem host_error_not_distinct:
  "run_with_measurement (unavailable ''OSError'') (\<lambda>h. (Inr ((), h) :: string + unit \<times> unit)) ()
     = Inl ''OSError''
   \<and> run_with_measurement cell5 (\<lambda>h. (Inl ''OSError'' :: string + unit \<times> unit)) ()
     = Inl ''OSError''"
  by (simp add: run_with_measurement_def begin_window_def unavailable_def cell5_def answering_def)

text \<open>
  C5, amended. The cycle raises \<open>e\<close> exactly when one of its steps raises \<open>e\<close> and all
  steps before it returned: the system-wide query of \<open>begin_window\<close>, the work, the
  per-CPU query of the sample, or the system-wide query of the sample. So a work that
  raises \<open>e\<close> after \<open>begin_window\<close> answered makes the cycle raise \<open>e\<close>, unchanged (no
  sample is taken), and a host query that raises makes the cycle raise the host's own
  exception, unchanged; no other exception ever comes out of the cycle.
\<close>

theorem errors_propagate_unchanged:
  "run_with_measurement P work h0 = Inl e \<longleftrightarrow>
     cpu_percent P h0 = Inl e
     \<or> (\<exists>r h1. cpu_percent P h0 = Inr (r, h1)
          \<and> (work h1 = Inl e
             \<or> (\<exists>v h2. work h1 = Inr (v, h2)
                  \<and> (cpu_percent_percpu P h2 = Inl e
                     \<or> (\<exists>per h3. cpu_percent_percpu P h2 = Inr (per, h3)
                          \<and> cpu_percent P h3 = Inl e)))))"
  by (auto simp: run_with_measurement_def begin_window_def sample_def
      split: sum.splits prod.splits)

theorem errors_propagate_unchanged_witness:
  "run_with_measurement cell5 (\<lambda>h. (Inl ''ValueError'' :: string + unit \<times> unit)) ()
       = Inl ''ValueError''
   \<and> run_with_measurement (unavailable ''OSError'') (\<lambda>h. (Inr ((), h) :: string + unit \<times> unit)) ()
       = Inl ''OSError''
   \<and> run_with_measurement (percpu_unavailable 36.2 ''PermissionError'')
        (\<lambda>h. (Inr ((), h) :: string + unit \<times> unit)) ()
       = Inl ''PermissionError''
   \<and> run_with_measurement cell5 (\<lambda>h. (Inr ((), h) :: string + unit \<times> unit)) ()
       \<noteq> Inl ''OSError''"
proof -
  have a: "run_with_measurement (answering per agg) (\<lambda>h. (Inl e :: string + unit \<times> unit)) () = Inl e"
    for per agg e
    using errors_propagate_unchanged [of "answering per agg" "\<lambda>h. Inl e" "()" e]
    by (simp add: answering_def)
  have b: "run_with_measurement (unavailable e) (\<lambda>h. (Inr ((), h) :: string + unit \<times> unit)) () = Inl e"
    for e
    using errors_propagate_unchanged [of "unavailable e" "\<lambda>h. Inr ((), h)" "()" e]
    by (simp add: unavailable_def)
  have c: "run_with_measurement (percpu_unavailable agg e)
        (\<lambda>h. (Inr ((), h) :: string + unit \<times> unit)) () = Inl e"
    for agg e
    using errors_propagate_unchanged [of "percpu_unavailable agg e" "\<lambda>h. Inr ((), h)" "()" e]
    by (simp add: percpu_unavailable_def)
  have d: "run_with_measurement (answering per agg)
        (\<lambda>h. (Inr ((), h) :: string + unit \<times> unit)) () \<noteq> Inl e"
    for per agg e
    using errors_propagate_unchanged [of "answering per agg" "\<lambda>h. Inr ((), h)" "()" e]
    by (simp add: answering_def)
  show ?thesis
    unfolding cell5_def by (intro conjI a b c d)
qed

section \<open>Properties of the cycle on the library call\<close>

lemma calculate_range: "0 \<le> calculate t1 t2 \<and> calculate t1 t2 \<le> 100"
proof -
  define b where "b = fst t2 - fst t1"
  define a where "a = b + (snd t2 - snd t1)"
  show ?thesis
  proof (cases "a = 0")
    case True
    then show ?thesis by (simp add: calculate_def a_def b_def)
  next
    case False
    have ba: "b \<le> a" by (simp add: a_def)
    define x where "x = real b / real a * 100 * 10"
    have x0: "0 \<le> x" by (simp add: x_def)
    have "real b / real a \<le> 1" using ba False by simp
    then have x1: "x \<le> 1000" by (simp add: x_def)
    have r0: "0 \<le> round x" using round_mono [OF x0] by simp
    have r1: "round x \<le> 1000" using round_mono [OF x1] by simp
    have c: "calculate t1 t2 = real_of_int (round x) / 10"
      using False by (simp add: calculate_def a_def b_def x_def Let_def)
    show ?thesis using r0 r1 by (simp add: c)
  qed
qed

lemma calculate_same: "calculate t t = 0"
  by (simp add: calculate_def)

lemma sample_psutil:
  "sample psutil h =
     Inr (\<lparr>per_resource_percentages = fst (psutil_cpu_percent_percpu h),
           aggregate_percentage = fst (psutil_cpu_percent (snd (psutil_cpu_percent_percpu h)))\<rparr>,
          snd (psutil_cpu_percent (snd (psutil_cpu_percent_percpu h))))"
  by (simp add: sample_def psutil_def split: prod.splits)

lemma begin_window_psutil: "begin_window psutil h = Inr (psutil_cpu_percent h)"
  by (simp add: begin_window_def psutil_def)

text \<open>
  A session used below: two CPUs, the module imported, then 100 ticks during which
  CPU 0 is busy for 30 and CPU 1 is idle; the sample taken then.
\<close>

lemma sample_after_load:
  "sample (psutil :: (host, string) psutil_api)
       (elapse (\<lambda>i. if i = 0 then (30, 70) else (0, 100)) (import_psutil [(0, 0), (0, 0)]))
     = Inr (\<lparr>per_resource_percentages = [30, 0], aggregate_percentage = 15\<rparr>,
            \<lparr>per_cpu_times = [(30, 70), (0, 100)], last_cpu_times = (30, 170),
             last_per_cpu_times = [(30, 70), (0, 100)]\<rparr>)"
  by (simp add: sample_def psutil_def psutil_cpu_percent_def psutil_cpu_percent_percpu_def
      import_psutil_def elapse_def cpu_times_def calculate_def Let_def)

text \<open>
  C3. Two cycles in a row on the library call, on two CPUs. In the first run CPU 0 is
  busy for 100 ticks between the two cycles, before the second \<open>begin_window\<close>; in the
  second run nothing happens between the cycles. The work of the second cycle is the
  same in both runs: 100 idle ticks on each CPU. The second sample reports CPU 0 as 50
  per cent busy in the first run and as idle in the second: its per-CPU values reflect
  work done before its own \<open>begin_window\<close>, which re-marks only the system-wide times.
\<close>

theorem second_sample_sees_work_before_its_window:
  "two_cycles (psutil :: (host, string) psutil_api)
      (\<lambda>h. Inr ((), elapse (\<lambda>i. (50, 50)) h))
      (\<lambda>h. Inr ((), elapse (\<lambda>i. if i = 0 then (100, 0) else (0, 100)) h))
      (\<lambda>h. Inr ((), elapse (\<lambda>i. (0, 100)) h))
      (import_psutil [(0, 0), (0, 0)])
   = Inr ((\<lparr>per_resource_percentages = [50, 50], aggregate_percentage = 50\<rparr>,
           \<lparr>per_resource_percentages = [50, 0], aggregate_percentage = 0\<rparr>),
          \<lparr>per_cpu_times = [(150, 150), (50, 250)], last_cpu_times = (200, 400),
           last_per_cpu_times = [(150, 150), (50, 250)]\<rparr>)
   \<and> two_cycles (psutil :: (host, string) psutil_api)
      (\<lambda>h. Inr ((), elapse (\<lambda>i. (50, 50)) h))
      (\<lambda>h. Inr ((), h))
      (\<lambda>h. Inr ((), elapse (\<lambda>i. (0, 100)) h))
      (import_psutil [(0, 0), (0, 0)])
   = Inr ((\<lparr>per_resource_percentages = [50, 50], aggregate_percentage = 50\<rparr>,
           \<lparr>per_resource_percentages = [0, 0], aggregate_percentage = 0\<rparr>),
          \<lparr>per_cpu_times = [(50, 150), (50, 150)], last_cpu_times = (100, 300),
           last_per_cpu_times = [(50, 150), (50, 150)]\<rparr>)"
  by (simp add: two_cycles_def run_with_measurement_def begin_window_def sample_def psutil_def
      psutil_cpu_percent_def psutil_cpu_percent_percpu_def import_psutil_def elapse_def
      cpu_times_def calculate_def Let_def)

text \<open>
  C6. Every sample taken on the library call, in any host state, has all its per-unit
  values in the closed interval from 0 to 100, and its aggregate there too.
\<close>

theorem psutil_sample_in_range:
  "sample psutil h = Inr (s, h') \<Longrightarrow>
     (\<forall>p \<in> set (per_resource_percentages s). 0 \<le> p \<and> p \<le> 100)
     \<and> 0 \<le> aggregate_percentage s \<and> aggregate_percentage s \<le> 100"
  by (auto simp: sample_psutil psutil_cpu_percent_def psutil_cpu_percent_percpu_def Let_def
      calculate_range dest!: set_zip_leftD)

theorem psutil_sample_in_range_witness:
  "sample (psutil :: (host, string) psutil_api)
       (elapse (\<lambda>i. if i = 0 then (30, 70) else (0, 100)) (import_psutil [(0, 0), (0, 0)]))
     = Inr (\<lparr>per_resource_percentages = [30, 0], aggregate_percentage = 15\<rparr>,
            \<lparr>per_cpu_times = [(30, 70), (0, 100)], last_cpu_times = (30, 170),
             last_per_cpu_times = [(30, 70), (0, 100)]\<rparr>)
   \<and> list_all (\<lambda>p. 0 \<le> p \<and> p \<le> 100)
        (per_resource_percentages \<lparr>per_resource_percentages = [30, 0], aggregate_percentage = 15\<rparr>)
   \<and> 0 \<le> aggregate_percentage \<lparr>per_resource_percentages = [30, 0], aggregate_percentage = 15\<rparr>
   \<and> aggregate_percentage \<lparr>per_resource_percentages = [30, 0], aggregate_percentage = 15\<rparr> \<le> 100"
  using sample_after_load psutil_sample_in_range [OF sample_after_load]
  by simp

text \<open>
  Counterexample to C7 as stated: the module is imported on two CPUs, 100 ticks pass,
  a third CPU comes online, and the sample is taken. It has two per-unit values on a
  host of three CPUs.
\<close>

theorem sample_after_cpu_online:
  "sample (psutil :: (host, string) psutil_api)
       (cpu_online (0, 0) (elapse (\<lambda>i. (50, 50)) (import_psutil [(0, 0), (0, 0)])))
     = Inr (\<lparr>per_resource_percentages = [50, 50], aggregate_percentage = 50\<rparr>,
            \<lparr>per_cpu_times = [(50, 50), (50, 50), (0, 0)], last_cpu_times = (100, 100),
             last_per_cpu_times = [(50, 50), (50, 50), (0, 0)]\<rparr>)
   \<and> length (per_cpu_times
        (cpu_online (0, 0) (elapse (\<lambda>i. (50, 50)) (import_psutil [(0, 0), (0, 0)])))) = 3
   \<and> length (per_resource_percentages
        \<lparr>per_resource_percentages = [50, 50], aggregate_percentage = 50\<rparr>) = 2"
  by (simp add: sample_def psutil_def psutil_cpu_percent_def psutil_cpu_percent_percpu_def
      import_psutil_def elapse_def cpu_online_def cpu_times_def calculate_def Let_def)

text \<open>
  C7, amended. In every host state, a sample taken on the library call has as many
  per-unit values as the smaller of two numbers: the number of CPUs whose times the
  previous per-CPU query (or the import) saved, and the number of CPUs the host has when
  the sample is taken. So the length is the number of CPUs at that moment exactly when
  the host has no more CPUs than were saved, in particular whenever the number of
  CPUs has not changed since.
\<close>

theorem psutil_sample_length:
  "sample psutil h = Inr (s, h') \<Longrightarrow>
     length (per_resource_percentages s)
       = min (length (last_per_cpu_times h)) (length (per_cpu_times h))
     \<and> (length (per_resource_percentages s) = length (per_cpu_times h)
          \<longleftrightarrow> length (per_cpu_times h) \<le> length (last_per_cpu_times h))"
  by (auto simp: sample_psutil psutil_cpu_percent_percpu_def Let_def)

theorem psutil_sample_length_witness:
  "sample (psutil :: (host, string) psutil_api)
       (elapse (\<lambda>i. if i = 0 then (30, 70) else (0, 100)) (import_psutil [(0, 0), (0, 0)]))
     = Inr (\<lparr>per_resource_percentages = [30, 0], aggregate_percentage = 15\<rparr>,
            \<lparr>per_cpu_times = [(30, 70), (0, 100)], last_cpu_times = (30, 170),
             last_per_cpu_times = [(30, 70), (0, 100)]\<rparr>)
   \<and> length (per_resource_percentages \<lparr>per_resource_percentages = [30, 0], aggregate_percentage = 15\<rparr>)
     = length (per_cpu_times
         (elapse (\<lambda>i. if i = 0 then (30, 70) else (0, 100)) (import_psutil [(0, 0), (0, 0)])))"
  using sample_after_load psutil_sample_length [OF sample_after_load]
  by (simp add: import_psutil_def elapse_def)

text \<open>
  C9. In any host state \<open>begin_window\<close> answers on the library call, and the sample
  call after it answers with a sample: when no time passes in between, the aggregate
  of that sample is 0 (the empty interval is no error); after any passing of time \<open>f\<close>,
  however short, the aggregate is a value from 0 to 100.
\<close>

theorem begin_then_sample_returns:
  "\<exists>r h1. begin_window psutil h = Inr (r, h1)
      \<and> (\<exists>s h2. sample psutil h1 = Inr (s, h2) \<and> aggregate_percentage s = 0)
      \<and> (\<exists>s h2. sample psutil (elapse f h1) = Inr (s, h2)
            \<and> 0 \<le> aggregate_percentage s \<and> aggregate_percentage s \<le> 100)"
  by (simp add: begin_window_psutil sample_psutil psutil_cpu_percent_def
      psutil_cpu_percent_percpu_def cpu_times_def calculate_same calculate_range Let_def)

end
